theory Spec2Isabelle
  imports Main "HOL-Library.Sublist"
begin

section \<open>The restart server: process scan, terminate, relaunch\<close>

text \<open>
  The repository holds two entry points with the same four handlers: the package
  \<^verbatim>\<open>src/mcp_server_restart/server.py\<close> (called canonical below) and the older top-level
  \<^verbatim>\<open>server.py\<close> (called legacy, definitions suffixed \<open>_legacy\<close>). Both read the
  operating system's process table through \<^verbatim>\<open>psutil.process_iter\<close>, signal processes
  through \<^verbatim>\<open>proc.terminate\<close> and \<^verbatim>\<open>proc.wait\<close>, and start the application through
  \<^verbatim>\<open>subprocess.Popen\<close>. The model makes that world an explicit value (\<open>env\<close>), every
  call into it an entry of an event log, and every exception a value.
\<close>

subsection \<open>Exceptions\<close>

text \<open>
  An exception is its class and the text \<^verbatim>\<open>str(e)\<close> gives. The classes are the ones the
  handlers raise or name in an \<^verbatim>\<open>except\<close> clause; \<open>OtherException\<close> stands for every
  other subclass of \<^verbatim>\<open>Exception\<close>, and a class stands for its subclasses too, as an
  \<^verbatim>\<open>except\<close> clause reads it. Interrupts and cancellation, which are not subclasses of
  \<^verbatim>\<open>Exception\<close>, are outside the model.
\<close>

datatype exc_class =
  ValueError | TypeError | TimeoutExpired | NoSuchProcess | AccessDenied | OtherException

datatype exc = Exc (exc_class: exc_class) (exc_str: string)

subsection \<open>The process table and the rest of the environment\<close>

text \<open>
  \<^verbatim>\<open>proc.info['name']\<close> yields a string or \<^verbatim>\<open>None\<close>, or raises. \<^verbatim>\<open>proc.terminate()\<close>
  and \<^verbatim>\<open>proc.wait(timeout=5)\<close> return (\<open>None\<close>) or raise (\<open>Some e\<close>).
\<close>

datatype name_read = Name string | NameNone | NameRaises exc

record proc =
  pid :: int
  info_name :: name_read
  terminate :: "exc option"
  wait :: "exc option"

text \<open>
  \<^verbatim>\<open>psutil.process_iter\<close> is a generator: it yields the processes of \<open>process_iter\<close>
  in order and then stops, or raises \<open>iter_raises\<close> in place of stopping.
  \<open>popen\<close> is what \<^verbatim>\<open>subprocess.Popen\<close> does (\<open>None\<close>: the child is spawned),
  \<open>now_isoformat\<close> is the value of \<^verbatim>\<open>datetime.now().isoformat()\<close>.

  \<open>progressToken\<close> is what evaluating \<^verbatim>\<open>server.request_context.meta.progressToken\<close>
  gives: the token of the request or \<^verbatim>\<open>None\<close>, or the exception it raises (a
  \<^verbatim>\<open>LookupError\<close> when the handler runs outside a request context, an
  \<^verbatim>\<open>AttributeError\<close> when the request has no \<^verbatim>\<open>_meta\<close> and \<^verbatim>\<open>meta\<close> is \<^verbatim>\<open>None\<close>).
  \<open>send_progress_notification\<close> is what awaiting the session's method of that name does:
  it returns (\<open>None\<close>) or raises. Only the legacy handler reads these two.
\<close>

datatype token = TokenStr string | TokenInt int

record env =
  process_iter :: "proc list"
  iter_raises :: "exc option"
  popen :: "exc option"
  now_isoformat :: string
  progressToken :: "exc + token option"
  send_progress_notification :: "exc option"

datatype event =
  Process_iter
  | Terminate proc
  | Wait proc
  | Popen "string list"
  | Progress nat nat

subsection \<open>Values handed to \<^verbatim>\<open>json.dumps\<close>\<close>

text \<open>
  Both handlers end in \<^verbatim>\<open>json.dumps\<close> of a dictionary. The serialiser is the standard
  library's; the model returns the dictionary that is serialised, keys in insertion
  order.
\<close>

datatype json = JNull | JBool bool | JInt int | JStr string | JDict "(string \<times> json) list"

datatype content = TextContent json

record result =
  status :: string
  message :: string

definition result_json :: "result \<Rightarrow> json" where
  "result_json r = JDict [(''status'', JStr (status r)), (''message'', JStr (message r))]"

definition status_json :: "bool \<Rightarrow> int option \<Rightarrow> string \<Rightarrow> json" where
  "status_json r p t =
     JDict [(''running'', JBool r),
            (''pid'', (case p of None \<Rightarrow> JNull | Some i \<Rightarrow> JInt i)),
            (''timestamp'', JStr t)]"

subsection \<open>Python string operations\<close>

text \<open>\<^verbatim>\<open>str(n)\<close> for an integer: decimal digits, a minus sign when negative.\<close>

definition digit_char :: "nat \<Rightarrow> char" where
  "digit_char d = ''0123456789'' ! d"

function str_nat :: "nat \<Rightarrow> string" where
  "str_nat n = (if n < 10 then [digit_char n] else str_nat (n div 10) @ [digit_char (n mod 10)])"
  by pat_completeness auto
termination
  by (relation "measure (\<lambda>n. n)") auto

declare str_nat.simps [simp del]

definition str_int :: "int \<Rightarrow> string" where
  "str_int i = (if i < 0 then CHR ''-'' # str_nat (nat (- i)) else str_nat (nat i))"

text \<open>
  \<^verbatim>\<open>s.replace(old, new)\<close>: every occurrence of \<open>old\<close>, left to right and without
  overlap; for the empty \<open>old\<close>, \<open>new\<close> goes before every character and at the end.
\<close>

function str_replace :: "string \<Rightarrow> string \<Rightarrow> string \<Rightarrow> string" where
  "str_replace old new s =
     (if old = [] then new @ concat (map (\<lambda>c. c # new) s)
      else if s = [] then []
      else if prefix old s then new @ str_replace old new (drop (length old) s)
      else hd s # str_replace old new (tl s))"
  by pat_completeness auto
termination
  by (relation "measure (\<lambda>(old, new, s). length s)") auto

declare str_replace.simps [simp del]

text \<open>
  \<^verbatim>\<open>sub in s\<close> is \<^const>\<open>sublist\<close> (a contiguous run), \<^verbatim>\<open>s.startswith(p)\<close> is
  \<^const>\<open>prefix\<close>.
\<close>

subsection \<open>The process locator\<close>

text \<open>
  Canonical (lines 51-57 and 95-101): collect every process whose name equals
  \<^verbatim>\<open>'Claude Desktop'\<close>; \<^verbatim>\<open>NoSuchProcess\<close> and \<^verbatim>\<open>AccessDenied\<close> raised while reading
  a name skip that process, any other exception leaves the loop.
\<close>

fun find_claude_processes :: "proc list \<Rightarrow> exc option \<Rightarrow> exc + proc list" where
  "find_claude_processes [] r = (case r of None \<Rightarrow> Inr [] | Some e \<Rightarrow> Inl e)"
| "find_claude_processes (p # ps) r =
     (case info_name p of
        NameRaises e \<Rightarrow>
          if exc_class e = NoSuchProcess \<or> exc_class e = AccessDenied
          then find_claude_processes ps r else Inl e
      | NameNone \<Rightarrow> find_claude_processes ps r
      | Name s \<Rightarrow>
          if s = ''Claude Desktop''
          then (case find_claude_processes ps r of
                  Inl e \<Rightarrow> Inl e
                | Inr ms \<Rightarrow> Inr (p # ms))
          else find_claude_processes ps r)"

text \<open>
  Legacy (lines 40-47 and 87-94): stop at the first process whose name contains
  \<^verbatim>\<open>'Claude'\<close>. \<^verbatim>\<open>'Claude' in None\<close> raises a \<^verbatim>\<open>TypeError\<close>, which the
  \<^verbatim>\<open>except\<close> clause does not catch.
\<close>

definition none_not_iterable :: exc where
  "none_not_iterable = Exc TypeError ''argument of type 'NoneType' is not iterable''"

fun find_claude_process_legacy :: "proc list \<Rightarrow> exc option \<Rightarrow> exc + proc option" where
  "find_claude_process_legacy [] r = (case r of None \<Rightarrow> Inr None | Some e \<Rightarrow> Inl e)"
| "find_claude_process_legacy (p # ps) r =
     (case info_name p of
        NameRaises e \<Rightarrow>
          if exc_class e = NoSuchProcess \<or> exc_class e = AccessDenied
          then find_claude_process_legacy ps r else Inl e
      | NameNone \<Rightarrow> Inl none_not_iterable
      | Name s \<Rightarrow>
          if sublist ''Claude'' s then Inr (Some p)
          else find_claude_process_legacy ps r)"

subsection \<open>Reading the status resource\<close>

text \<open>
  Canonical, lines 38-69. The body of the \<^verbatim>\<open>try\<close>, then the \<^verbatim>\<open>except\<close> clause.
  \<open>uri\<close> is a string, so \<^verbatim>\<open>isinstance(uri, str)\<close> holds; \<^verbatim>\<open>json.dumps\<close> of a dictionary
  of booleans, integers, \<^verbatim>\<open>None\<close> and strings does not raise.
\<close>

definition read_resource_body :: "env \<Rightarrow> string \<Rightarrow> exc + json" where
  "read_resource_body e uri =
     (if \<not> prefix ''claude://'' uri
      then Inl (Exc ValueError ''Unknown resource: Invalid URI scheme'')
      else
        let path = str_replace ''claude://'' [] uri in
        if path = [] \<or> path \<noteq> ''status''
        then Inl (Exc ValueError (''Unknown resource: '' @ path))
        else
          (case find_claude_processes (process_iter e) (iter_raises e) of
             Inl x \<Rightarrow> Inl x
           | Inr claude_processes \<Rightarrow>
               Inr (status_json (0 < length claude_processes)
                      (if claude_processes \<noteq> [] then Some (pid (claude_processes ! 0)) else None)
                      (now_isoformat e))))"

definition handle_read_resource :: "env \<Rightarrow> string \<Rightarrow> exc + json" where
  "handle_read_resource e uri =
     (case read_resource_body e uri of
        Inl x \<Rightarrow>
          if \<not> sublist ''Unknown resource'' (exc_str x)
          then Inl (Exc ValueError (''Unknown resource: '' @ exc_str x))
          else Inl x
      | Inr v \<Rightarrow> Inr v)"

text \<open>Legacy, lines 34-54.\<close>

definition handle_read_resource_legacy :: "env \<Rightarrow> string \<Rightarrow> exc + json" where
  "handle_read_resource_legacy e uri =
     (if uri \<noteq> ''claude://status''
      then Inl (Exc ValueError (''Unknown resource: '' @ uri))
      else
        (case find_claude_process_legacy (process_iter e) (iter_raises e) of
           Inl x \<Rightarrow> Inl x
         | Inr claude_process \<Rightarrow>
             Inr (status_json (claude_process \<noteq> None)
                    (case claude_process of Some p \<Rightarrow> Some (pid p) | None \<Rightarrow> None)
                    (now_isoformat e))))"

subsection \<open>The restart tool\<close>

text \<open>
  Canonical, lines 106-118: the loop over the matches. \<open>Inl\<close> is the \<^verbatim>\<open>return\<close> inside
  a handler, \<open>Inr\<close> the end of the loop; both carry the result dictionary and the log.
\<close>

definition terminate_failed :: "exc \<Rightarrow> result \<Rightarrow> result" where
  "terminate_failed x r =
     (if exc_class x = TimeoutExpired
      then r\<lparr>status := ''error'', message := ''Failed to terminate Claude: timeout''\<rparr>
      else r\<lparr>status := ''error'', message := ''Failed to terminate Claude: '' @ exc_str x\<rparr>)"

fun terminate_loop ::
  "proc list \<Rightarrow> result \<times> event list \<Rightarrow> (result \<times> event list) + (result \<times> event list)" where
  "terminate_loop [] s = Inr s"
| "terminate_loop (p # ps) (r, evs) =
     (case terminate p of
        Some x \<Rightarrow> Inl (terminate_failed x r, evs @ [Terminate p])
      | None \<Rightarrow>
          (case wait p of
             Some x \<Rightarrow> Inl (terminate_failed x r, evs @ [Terminate p, Wait p])
           | None \<Rightarrow>
               terminate_loop ps
                 (r\<lparr>message := message r @ ''Terminated Claude process '' @ str_int (pid p) @ ''. ''\<rparr>,
                  evs @ [Terminate p, Wait p])))"

text \<open>
  Lines 126-134: the launch. The handler at lines 121-124 guards only the iteration
  over a list and the formatting of its length, which do not raise.
\<close>

definition start_claude :: "env \<Rightarrow> result \<times> event list \<Rightarrow> result \<times> event list" where
  "start_claude e s =
     (case s of (r, evs) \<Rightarrow>
        (case popen e of
           None \<Rightarrow> (r\<lparr>message := message r @ ''Started new Claude process.''\<rparr>,
                     evs @ [Popen [''open'', ''-a'', ''Claude'']])
         | Some x \<Rightarrow> (r\<lparr>status := ''error'', message := ''Failed to start Claude''\<rparr>,
                       evs @ [Popen [''open'', ''-a'', ''Claude'']])))"

definition respond :: "result \<times> event list \<Rightarrow> (exc + content list) \<times> event list" where
  "respond s = (case s of (r, evs) \<Rightarrow> (Inr [TextContent (result_json r)], evs))"

definition handle_call_tool :: "env \<Rightarrow> string \<Rightarrow> json \<Rightarrow> (exc + content list) \<times> event list" where
  "handle_call_tool e name arguments =
     (if name \<noteq> ''restart_claude''
      then (Inl (Exc ValueError (''Unknown tool: '' @ name)), [])
      else
        let result = \<lparr>status = ''success'', message = []\<rparr> in
        (case find_claude_processes (process_iter e) (iter_raises e) of
           Inl x \<Rightarrow> (Inl x, [Process_iter])
         | Inr claude_processes \<Rightarrow>
             if claude_processes \<noteq> []
             then
               (case terminate_loop claude_processes (result, [Process_iter]) of
                  Inl s \<Rightarrow> respond s
                | Inr (r, evs) \<Rightarrow>
                    respond (start_claude e
                      (r\<lparr>message := message r @ ''Terminated ''
                            @ str_nat (length claude_processes)
                            @ '' existing Claude process(es). ''\<rparr>, evs)))
             else respond (start_claude e (result, [Process_iter]))))"

text \<open>
  Legacy, lines 72-122. Lines 80, 110 and 128 each read the progress token, unguarded, and
  send a notification where the token is one Python counts as true (a non-empty string,
  a non-zero integer). An exception from the read or from the send is caught nowhere:
  it leaves the handler at that line (\<open>Inl\<close>, with the log so far).
\<close>

definition truthy :: "token option \<Rightarrow> bool" where
  "truthy t = (case t of None \<Rightarrow> False | Some (TokenStr s) \<Rightarrow> s \<noteq> [] | Some (TokenInt i) \<Rightarrow> i \<noteq> 0)"

definition send_progress :: "env \<Rightarrow> nat \<Rightarrow> event list \<Rightarrow> (exc \<times> event list) + event list" where
  "send_progress e n evs =
     (case progressToken e of
        Inl x \<Rightarrow> Inl (x, evs)
      | Inr progress_token \<Rightarrow>
          if truthy progress_token
          then (case send_progress_notification e of
                  Some x \<Rightarrow> Inl (x, evs @ [Progress n 2])
                | None \<Rightarrow> Inr (evs @ [Progress n 2]))
          else Inr evs)"

definition start_claude_legacy :: "env \<Rightarrow> result \<times> event list \<Rightarrow> result \<times> event list" where
  "start_claude_legacy e s =
     (case s of (r, evs) \<Rightarrow>
        (case popen e of
           None \<Rightarrow> (r\<lparr>message := message r @ ''Started new Claude process.''\<rparr>,
                     evs @ [Popen [''open'', ''-a'', ''Claude'']])
         | Some x \<Rightarrow> (r\<lparr>status := ''error'', message := ''Failed to start Claude: '' @ exc_str x\<rparr>,
                       evs @ [Popen [''open'', ''-a'', ''Claude'']])))"

definition finish_legacy :: "env \<Rightarrow> result \<times> event list \<Rightarrow> (exc + content list) \<times> event list" where
  "finish_legacy e s =
     (case send_progress e 1 (snd s) of
        Inl (x, evs) \<Rightarrow> (Inl x, evs)
      | Inr evs1 \<Rightarrow>
          (case start_claude_legacy e (fst s, evs1) of
             (r, evs2) \<Rightarrow>
               (case send_progress e 2 evs2 of
                  Inl (x, evs) \<Rightarrow> (Inl x, evs)
                | Inr evs3 \<Rightarrow> respond (r, evs3))))"

definition handle_call_tool_legacy ::
  "env \<Rightarrow> string \<Rightarrow> json \<Rightarrow> (exc + content list) \<times> event list" where
  "handle_call_tool_legacy e name arguments =
     (if name \<noteq> ''restart_claude''
      then (Inl (Exc ValueError (''Unknown tool: '' @ name)), [])
      else
        let result = \<lparr>status = ''success'', message = []\<rparr> in
        (case send_progress e 0 [] of
           Inl (x, evs) \<Rightarrow> (Inl x, evs)
         | Inr evs0 \<Rightarrow>
        let evs = evs0 @ [Process_iter] in
        (case find_claude_process_legacy (process_iter e) (iter_raises e) of
           Inl x \<Rightarrow> (Inl x, evs)
         | Inr None \<Rightarrow> finish_legacy e (result, evs)
         | Inr (Some claude_process) \<Rightarrow>
             (case terminate claude_process of
                Some x \<Rightarrow>
                  respond (result\<lparr>status := ''error'',
                                  message := ''Failed to terminate Claude: '' @ exc_str x\<rparr>,
                           evs @ [Terminate claude_process])
              | None \<Rightarrow>
                  (case wait claude_process of
                     Some x \<Rightarrow>
                       respond (result\<lparr>status := ''error'',
                                       message := ''Failed to terminate Claude: '' @ exc_str x\<rparr>,
                                evs @ [Terminate claude_process, Wait claude_process])
                   | None \<Rightarrow>
                       finish_legacy e
                         (result\<lparr>message := message result @ ''Terminated existing Claude process. ''\<rparr>,
                          evs @ [Terminate claude_process, Wait claude_process]))))))"

subsection \<open>Reading the event log\<close>

text \<open>The processes \<^verbatim>\<open>terminate\<close> was called on, and the argument lists of \<^verbatim>\<open>Popen\<close>.\<close>

fun terminate_calls :: "event list \<Rightarrow> proc list" where
  "terminate_calls [] = []"
| "terminate_calls (Terminate p # evs) = p # terminate_calls evs"
| "terminate_calls (ev # evs) = terminate_calls evs"

fun popen_calls :: "event list \<Rightarrow> string list list" where
  "popen_calls [] = []"
| "popen_calls (Popen c # evs) = c # popen_calls evs"
| "popen_calls (ev # evs) = popen_calls evs"

text \<open>What the two locators look for, as predicates on a process.\<close>

definition is_claude_desktop :: "proc \<Rightarrow> bool" where
  "is_claude_desktop p = (info_name p = Name ''Claude Desktop'')"

definition contains_claude :: "proc \<Rightarrow> bool" where
  "contains_claude p = (case info_name p of Name s \<Rightarrow> sublist ''Claude'' s | _ \<Rightarrow> False)"

text \<open>The log of a loop that terminated every process of a list.\<close>

definition terminated_log :: "proc list \<Rightarrow> event list" where
  "terminated_log ms = concat (map (\<lambda>p. [Terminate p, Wait p]) ms)"

definition terminated_text :: "proc list \<Rightarrow> string" where
  "terminated_text ms =
     concat (map (\<lambda>p. ''Terminated Claude process '' @ str_int (pid p) @ ''. '') ms)"

subsection \<open>Concrete environments\<close>

definition mock_process :: "string \<Rightarrow> int \<Rightarrow> proc" where
  "mock_process n i = \<lparr>pid = i, info_name = Name n, terminate = None, wait = None\<rparr>"

definition timeout_expired :: exc where
  "timeout_expired = Exc TimeoutExpired ''timeout after 5 seconds''"

definition stuck_process :: "string \<Rightarrow> int \<Rightarrow> proc" where
  "stuck_process n i = \<lparr>pid = i, info_name = Name n, terminate = None, wait = Some timeout_expired\<rparr>"

definition mock_env :: "proc list \<Rightarrow> exc option \<Rightarrow> env" where
  "mock_env ps launch =
     \<lparr>process_iter = ps, iter_raises = None, popen = launch,
      now_isoformat = ''2024-05-01T12:00:00.000250'', progressToken = Inr None,
      send_progress_notification = None\<rparr>"

definition no_request_context :: exc where
  "no_request_context = Exc OtherException ''<ContextVar name='request_ctx'>''"

definition outside_request :: "env \<Rightarrow> env" where
  "outside_request e = e\<lparr>progressToken := Inl no_request_context\<rparr>"

definition with_token :: "token \<Rightarrow> env \<Rightarrow> env" where
  "with_token t e = e\<lparr>progressToken := Inr (Some t)\<rparr>"

definition launcher_missing :: exc where
  "launcher_missing = Exc OtherException ''Failed to start process''"

definition scan_fails_env :: "exc \<Rightarrow> env" where
  "scan_fails_env x = (mock_env [] None)\<lparr>iter_raises := Some x\<rparr>"

section \<open>Facts about the loops and the log\<close>

text \<open>The definitions unfolded to run a handler on a concrete environment.\<close>

lemmas run =
  handle_call_tool_def handle_call_tool_legacy_def handle_read_resource_def
  handle_read_resource_legacy_def read_resource_body_def mock_env_def mock_process_def
  stuck_process_def timeout_expired_def launcher_missing_def scan_fails_env_def
  no_request_context_def outside_request_def with_token_def
  respond_def start_claude_def start_claude_legacy_def finish_legacy_def send_progress_def
  truthy_def result_json_def status_json_def terminate_failed_def str_int_def str_nat.simps
  str_replace.simps digit_char_def sublist_code prefix_code Let_def
  is_claude_desktop_def contains_claude_def terminated_log_def terminated_text_def

lemma popen_calls_append: "popen_calls (xs @ ys) = popen_calls xs @ popen_calls ys"
  by (induction xs rule: popen_calls.induct) simp_all


lemma find_claude_processes_filter:
  "find_claude_processes ps r = Inr ms \<Longrightarrow> ms = filter is_claude_desktop ps"
  by (induction ps arbitrary: ms)
     (auto simp: is_claude_desktop_def split: name_read.splits if_splits sum.splits option.splits)


lemma terminate_loop_all:
  "(\<And>p. p \<in> set ms \<Longrightarrow> terminate p = None \<and> wait p = None) \<Longrightarrow>
     terminate_loop ms (r, evs)
       = Inr (r\<lparr>message := message r @ terminated_text ms\<rparr>, evs @ terminated_log ms)"
proof (induction ms arbitrary: r evs)
  case Nil
  then show ?case by (simp add: terminated_text_def terminated_log_def)
next
  case (Cons p ps)
  have ok: "terminate p = None" "wait p = None" using Cons.prems by simp_all
  have rest: "\<And>q. q \<in> set ps \<Longrightarrow> terminate q = None \<and> wait q = None"
    using Cons.prems by simp
  show ?case
    by (simp add: ok Cons.IH [OF rest] terminated_text_def terminated_log_def)
qed

lemma terminate_failed_shape:
  "status (terminate_failed x r) = ''error''
   \<and> prefix ''Failed to terminate Claude: '' (message (terminate_failed x r))"
  by (simp add: terminate_failed_def)

lemma terminate_loop_fails:
  "p \<in> set ms \<Longrightarrow> terminate p \<noteq> None \<or> wait p \<noteq> None \<Longrightarrow>
     \<exists>r' evs'. terminate_loop ms (r, evs) = Inl (r', evs')
        \<and> status r' = ''error''
        \<and> prefix ''Failed to terminate Claude: '' (message r')
        \<and> popen_calls evs' = popen_calls evs"
proof (induction ms arbitrary: r evs)
  case Nil
  then show ?case by simp
next
  case (Cons q qs)
  show ?case
  proof (cases "terminate q")
    case (Some x)
    then show ?thesis
      using terminate_failed_shape [of x r] by (simp add: popen_calls_append)
  next
    case None
    note tq = this
    show ?thesis
    proof (cases "wait q")
      case (Some x)
      then show ?thesis
        using tq terminate_failed_shape [of x r] by (simp add: popen_calls_append)
    next
      case None
      then have "p \<in> set qs" using Cons.prems tq by auto
      from Cons.IH [OF this Cons.prems(2)] obtain r' evs' where
        step: "terminate_loop qs
                 (r\<lparr>message := message r @ ''Terminated Claude process '' @ str_int (pid q) @ ''. ''\<rparr>,
                  evs @ [Terminate q, Wait q]) = Inl (r', evs')"
          "status r' = ''error''"
          "prefix ''Failed to terminate Claude: '' (message r')"
          "popen_calls evs' = popen_calls (evs @ [Terminate q, Wait q])"
        by blast
      have "terminate_loop (q # qs) (r, evs) = Inl (r', evs')"
        using tq None step(1) by simp
      moreover have "popen_calls evs' = popen_calls evs"
        using step(4) by (simp add: popen_calls_append)
      ultimately show ?thesis using step(2,3) by blast
    qed
  qed
qed

section \<open>Unknown tool names\<close>

text \<open>
  C7. Both entry points: for every tool name other than \<^verbatim>\<open>restart_claude\<close> and every
  arguments value, the call raises \<^verbatim>\<open>ValueError("Unknown tool: <name>")\<close> and the event
  log is empty: the process table is not read, no process is signalled or waited for,
  and nothing is launched.
\<close>

theorem unknown_tool_never_starts:
  "name \<noteq> ''restart_claude'' \<Longrightarrow>
     handle_call_tool e name arguments = (Inl (Exc ValueError (''Unknown tool: '' @ name)), [])
     \<and> handle_call_tool_legacy e name arguments
         = (Inl (Exc ValueError (''Unknown tool: '' @ name)), [])"
  by (simp add: handle_call_tool_def handle_call_tool_legacy_def)

theorem unknown_tool_never_starts_witness:
  "handle_call_tool (mock_env [mock_process ''Claude Desktop'' 12345] None) ''restart'' JNull
     = (Inl (Exc ValueError ''Unknown tool: restart''), [])
   \<and> handle_call_tool_legacy (mock_env [mock_process ''Claude Desktop'' 12345] None)
       ''restart'' JNull
     = (Inl (Exc ValueError ''Unknown tool: restart''), [])"
proof -
  have differs: "''restart'' \<noteq> ''restart_claude''" by simp
  show ?thesis
    using unknown_tool_never_starts [OF differs] by simp
qed

section \<open>Termination failures\<close>

text \<open>
  C1. Canonical handler. Whenever the scan completes and some process of the table whose
  name is \<^verbatim>\<open>Claude Desktop\<close> raises from \<^verbatim>\<open>terminate\<close> or from \<^verbatim>\<open>wait\<close> (a timeout
  or any other exception), the call returns a result whose status is \<^verbatim>\<open>error\<close>, whose
  message starts with \<^verbatim>\<open>Failed to terminate Claude: \<close>, and \<^verbatim>\<open>subprocess.Popen\<close> is
  called zero times.
\<close>

theorem failed_termination_never_launches:
  assumes scan: "find_claude_processes (process_iter e) (iter_raises e) = Inr ms"
    and listed: "p \<in> set (process_iter e)"
    and matches: "is_claude_desktop p"
    and fails: "terminate p \<noteq> None \<or> wait p \<noteq> None"
  shows "\<exists>msg evs.
           handle_call_tool e ''restart_claude'' arguments
             = (Inr [TextContent (JDict [(''status'', JStr ''error''), (''message'', JStr msg)])], evs)
           \<and> prefix ''Failed to terminate Claude: '' msg
           \<and> popen_calls evs = []"
proof -
  have "ms = filter is_claude_desktop (process_iter e)"
    using scan by (rule find_claude_processes_filter)
  then have member: "p \<in> set ms" using listed matches by simp
  then have nonempty: "ms \<noteq> []" by auto
  from terminate_loop_fails [OF member fails]
  obtain r' evs' where
    loop: "terminate_loop ms (\<lparr>status = ''success'', message = []\<rparr>, [Process_iter]) = Inl (r', evs')"
      and st: "status r' = ''error''"
      and msg: "prefix ''Failed to terminate Claude: '' (message r')"
      and quiet: "popen_calls evs' = popen_calls [Process_iter]"
    by blast
  have "handle_call_tool e ''restart_claude'' arguments
          = (Inr [TextContent (JDict [(''status'', JStr ''error''), (''message'', JStr (message r'))])], evs')"
    using scan nonempty loop st
    by (simp add: handle_call_tool_def respond_def result_json_def)
  moreover have "popen_calls evs' = []" using quiet by simp
  ultimately show ?thesis using msg by blast
qed

theorem failed_termination_never_launches_witness:
  "handle_call_tool
     (mock_env [mock_process ''Claude Desktop'' 1000, stuck_process ''Claude Desktop'' 1001,
                mock_process ''Claude Desktop'' 1002] None) ''restart_claude'' JNull
   = (Inr [TextContent (JDict [(''status'', JStr ''error''),
                               (''message'', JStr ''Failed to terminate Claude: timeout'')])],
      [Process_iter,
       Terminate (mock_process ''Claude Desktop'' 1000), Wait (mock_process ''Claude Desktop'' 1000),
       Terminate (stuck_process ''Claude Desktop'' 1001), Wait (stuck_process ''Claude Desktop'' 1001)])"
proof -
  let ?e = "mock_env [mock_process ''Claude Desktop'' 1000, stuck_process ''Claude Desktop'' 1001,
                mock_process ''Claude Desktop'' 1002] None"
  let ?p = "stuck_process ''Claude Desktop'' 1001"
  have scan: "find_claude_processes (process_iter ?e) (iter_raises ?e)
      = Inr [mock_process ''Claude Desktop'' 1000, ?p, mock_process ''Claude Desktop'' 1002]"
    by (simp add: run)
  have listed: "?p \<in> set (process_iter ?e)" by (simp add: run)
  have matches: "is_claude_desktop ?p" by (simp add: run)
  have fails: "terminate ?p \<noteq> None \<or> wait ?p \<noteq> None" by (simp add: run)
  from failed_termination_never_launches [OF scan listed matches fails, of JNull]
  show ?thesis by (simp add: run)
qed

text \<open>
  C2. Canonical handler. With exactly one matching process, whose \<^verbatim>\<open>terminate\<close> returns
  and whose \<^verbatim>\<open>wait(timeout=5)\<close> raises \<^verbatim>\<open>TimeoutExpired\<close>, the call returns exactly
  \<^verbatim>\<open>{"status": "error", "message": "Failed to terminate Claude: timeout"}\<close>, and the log
  holds the scan, the signal and the wait only: nothing is launched.
\<close>

theorem single_match_wait_timeout:
  assumes scan: "find_claude_processes (process_iter e) (iter_raises e) = Inr [p]"
    and signalled: "terminate p = None"
    and waited: "wait p = Some x"
    and timeout: "exc_class x = TimeoutExpired"
  shows "handle_call_tool e ''restart_claude'' arguments
           = (Inr [TextContent (JDict [(''status'', JStr ''error''),
                                       (''message'', JStr ''Failed to terminate Claude: timeout'')])],
              [Process_iter, Terminate p, Wait p])"
  using assms
  by (simp add: handle_call_tool_def respond_def result_json_def terminate_failed_def)

theorem single_match_wait_timeout_witness:
  "handle_call_tool (mock_env [mock_process ''Finder'' 1, stuck_process ''Claude Desktop'' 12345] None)
      ''restart_claude'' JNull
   = (Inr [TextContent (JDict [(''status'', JStr ''error''),
                               (''message'', JStr ''Failed to terminate Claude: timeout'')])],
      [Process_iter, Terminate (stuck_process ''Claude Desktop'' 12345),
       Wait (stuck_process ''Claude Desktop'' 12345)])
   \<and> popen_calls [Process_iter, Terminate (stuck_process ''Claude Desktop'' 12345),
       Wait (stuck_process ''Claude Desktop'' 12345)] = []"
proof -
  let ?e = "mock_env [mock_process ''Finder'' 1, stuck_process ''Claude Desktop'' 12345] None"
  let ?p = "stuck_process ''Claude Desktop'' 12345"
  have scan: "find_claude_processes (process_iter ?e) (iter_raises ?e) = Inr [?p]"
    by (simp add: run)
  have signalled: "terminate ?p = None" by (simp add: run)
  have waited: "wait ?p = Some timeout_expired" by (simp add: run)
  have timeout: "exc_class timeout_expired = TimeoutExpired" by (simp add: run)
  from single_match_wait_timeout [OF scan signalled waited timeout, of JNull]
  show ?thesis by simp
qed

section \<open>Launch failures and the message\<close>

text \<open>
  C3 as stated (the \<^verbatim>\<open>Terminated\<close> text already appended stays in the message when the
  launch fails) does not hold: line 132 assigns the message. One process, pid 12345,
  terminates; \<^verbatim>\<open>Popen\<close> raises; the returned message is \<^verbatim>\<open>Failed to start Claude\<close> and
  holds no \<^verbatim>\<open>Terminated\<close>.
\<close>

theorem launch_failure_drops_terminated_text:
  "handle_call_tool (mock_env [mock_process ''Claude Desktop'' 12345] (Some launcher_missing))
      ''restart_claude'' JNull
   = (Inr [TextContent (JDict [(''status'', JStr ''error''),
                               (''message'', JStr ''Failed to start Claude'')])],
      [Process_iter, Terminate (mock_process ''Claude Desktop'' 12345),
       Wait (mock_process ''Claude Desktop'' 12345), Popen [''open'', ''-a'', ''Claude'']])
   \<and> \<not> sublist ''Terminated'' ''Failed to start Claude''"
  by (simp add: run)

text \<open>
  C3 amended. Canonical handler. When the scan completes, every matched process
  terminates within the timeout and \<^verbatim>\<open>Popen\<close> raises, the call returns exactly
  \<^verbatim>\<open>{"status": "error", "message": "Failed to start Claude"}\<close>: the message is replaced,
  not appended to. The log shows every match signalled and waited for, then the one
  launch attempt.
\<close>

theorem launch_failure_replaces_message:
  assumes scan: "find_claude_processes (process_iter e) (iter_raises e) = Inr ms"
    and clean: "\<And>p. p \<in> set ms \<Longrightarrow> terminate p = None \<and> wait p = None"
    and launch: "popen e = Some x"
  shows "handle_call_tool e ''restart_claude'' arguments
           = (Inr [TextContent (JDict [(''status'', JStr ''error''),
                                       (''message'', JStr ''Failed to start Claude'')])],
              Process_iter # terminated_log ms @ [Popen [''open'', ''-a'', ''Claude'']])"
proof (cases "ms = []")
  case True
  then show ?thesis
    using scan launch
    by (simp add: handle_call_tool_def respond_def result_json_def start_claude_def
        terminated_log_def)
next
  case False
  have loop: "terminate_loop ms (\<lparr>status = ''success'', message = []\<rparr>, [Process_iter])
      = Inr (\<lparr>status = ''success'', message = []\<rparr>\<lparr>message := [] @ terminated_text ms\<rparr>,
             [Process_iter] @ terminated_log ms)"
    using terminate_loop_all [OF clean, of ms "\<lparr>status = ''success'', message = []\<rparr>" "[Process_iter]"]
    by simp
  show ?thesis
    using scan launch False loop
    by (simp add: handle_call_tool_def respond_def result_json_def start_claude_def)
qed

theorem launch_failure_replaces_message_witness:
  "handle_call_tool
     (mock_env [mock_process ''Claude Desktop'' 1000, mock_process ''Claude Desktop'' 1001]
        (Some launcher_missing)) ''restart_claude'' JNull
   = (Inr [TextContent (JDict [(''status'', JStr ''error''),
                               (''message'', JStr ''Failed to start Claude'')])],
      [Process_iter,
       Terminate (mock_process ''Claude Desktop'' 1000), Wait (mock_process ''Claude Desktop'' 1000),
       Terminate (mock_process ''Claude Desktop'' 1001), Wait (mock_process ''Claude Desktop'' 1001),
       Popen [''open'', ''-a'', ''Claude'']])"
proof -
  let ?ms = "[mock_process ''Claude Desktop'' 1000, mock_process ''Claude Desktop'' 1001]"
  let ?e = "mock_env ?ms (Some launcher_missing)"
  have scan: "find_claude_processes (process_iter ?e) (iter_raises ?e) = Inr ?ms"
    by (simp add: run)
  have clean: "\<And>p. p \<in> set ?ms \<Longrightarrow> terminate p = None \<and> wait p = None"
    by (auto simp: run)
  have launch: "popen ?e = Some launcher_missing" by (simp add: run)
  from launch_failure_replaces_message [OF scan clean launch, of JNull]
  show ?thesis by (simp add: terminated_log_def)
qed

section \<open>Successful termination\<close>

text \<open>
  C4 as stated gives the outcome for one match with pid 12345 as
  \<^verbatim>\<open>Terminated 1 existing process(es). Started new process.\<close>; the handler returns another
  text, with one sentence per process and the word \<^verbatim>\<open>Claude\<close> in each part, and the
  claimed summary is not even a part of it.
\<close>

theorem terminated_message_names_claude:
  "handle_call_tool (mock_env [mock_process ''Claude Desktop'' 12345] None) ''restart_claude'' JNull
   = (Inr [TextContent (JDict [(''status'', JStr ''success''),
        (''message'', JStr ''Terminated Claude process 12345. Terminated 1 existing Claude process(es). Started new Claude process.'')])],
      [Process_iter, Terminate (mock_process ''Claude Desktop'' 12345),
       Wait (mock_process ''Claude Desktop'' 12345), Popen [''open'', ''-a'', ''Claude'']])
   \<and> ''Terminated Claude process 12345. Terminated 1 existing Claude process(es). Started new Claude process.''
       \<noteq> ''Terminated 1 existing process(es). Started new process.''
   \<and> \<not> sublist ''Terminated 1 existing process(es)''
         ''Terminated Claude process 12345. Terminated 1 existing Claude process(es). Started new Claude process.''"
  by (simp add: run)

text \<open>
  C4 amended. Canonical handler. When the scan completes with \<open>N \<ge> 1\<close> matches and all of
  them terminate within the timeout, \<^verbatim>\<open>Popen\<close> is called exactly once, after every match
  was signalled and waited for; and when it succeeds the outcome is status
  \<^verbatim>\<open>success\<close> with the message made of \<^verbatim>\<open>Terminated Claude process <pid>. \<close> for each
  match in order, then \<^verbatim>\<open>Terminated N existing Claude process(es). \<close>, then
  \<^verbatim>\<open>Started new Claude process.\<close> The instance that follows is one match with pid 12345.
\<close>

theorem all_terminated_then_launch:
  assumes scan: "find_claude_processes (process_iter e) (iter_raises e) = Inr ms"
    and some: "ms \<noteq> []"
    and clean: "\<And>p. p \<in> set ms \<Longrightarrow> terminate p = None \<and> wait p = None"
  shows "snd (handle_call_tool e ''restart_claude'' arguments)
           = Process_iter # terminated_log ms @ [Popen [''open'', ''-a'', ''Claude'']]
         \<and> (popen e = None \<longrightarrow>
              fst (handle_call_tool e ''restart_claude'' arguments)
                = Inr [TextContent (JDict [(''status'', JStr ''success''),
                    (''message'', JStr (terminated_text ms @ ''Terminated '' @ str_nat (length ms)
                        @ '' existing Claude process(es). Started new Claude process.''))])])"
proof -
  have loop: "terminate_loop ms (\<lparr>status = ''success'', message = []\<rparr>, [Process_iter])
      = Inr (\<lparr>status = ''success'', message = []\<rparr>\<lparr>message := [] @ terminated_text ms\<rparr>,
             [Process_iter] @ terminated_log ms)"
    using terminate_loop_all [OF clean, of ms "\<lparr>status = ''success'', message = []\<rparr>" "[Process_iter]"]
    by simp
  show ?thesis
    using scan some loop
    by (simp add: handle_call_tool_def respond_def result_json_def start_claude_def
        split: option.splits)
qed

theorem all_terminated_then_launch_witness:
  "snd (handle_call_tool (mock_env [mock_process ''Claude Desktop'' 12345] None) ''restart_claude'' JNull)
     = [Process_iter, Terminate (mock_process ''Claude Desktop'' 12345),
        Wait (mock_process ''Claude Desktop'' 12345), Popen [''open'', ''-a'', ''Claude'']]
   \<and> fst (handle_call_tool (mock_env [mock_process ''Claude Desktop'' 12345] None) ''restart_claude'' JNull)
     = Inr [TextContent (JDict [(''status'', JStr ''success''),
          (''message'', JStr ''Terminated Claude process 12345. Terminated 1 existing Claude process(es). Started new Claude process.'')])]"
proof -
  let ?ms = "[mock_process ''Claude Desktop'' 12345]"
  let ?e = "mock_env ?ms None"
  have scan: "find_claude_processes (process_iter ?e) (iter_raises ?e) = Inr ?ms"
    by (simp add: run)
  have some: "?ms \<noteq> []" by simp
  have clean: "\<And>p. p \<in> set ?ms \<Longrightarrow> terminate p = None \<and> wait p = None"
    by (auto simp: run)
  have launch: "popen ?e = None" by (simp add: run)
  from all_terminated_then_launch [OF scan some clean, of JNull] launch
  show ?thesis by (simp add: run)
qed

section \<open>No running instance\<close>

text \<open>
  C6 as stated gives the outcome \<^verbatim>\<open>Started new process.\<close>; the handler returns
  \<^verbatim>\<open>Started new Claude process.\<close>
\<close>

theorem no_match_message_names_claude:
  "handle_call_tool (mock_env [] None) ''restart_claude'' JNull
   = (Inr [TextContent (JDict [(''status'', JStr ''success''),
                               (''message'', JStr ''Started new Claude process.'')])],
      [Process_iter, Popen [''open'', ''-a'', ''Claude'']])
   \<and> ''Started new Claude process.'' \<noteq> ''Started new process.''"
  by (simp add: run)

text \<open>
  C6 amended. Canonical handler. When the scan completes with no match, the call goes
  from the scan straight to the one \<^verbatim>\<open>Popen\<close> call: \<^verbatim>\<open>terminate\<close> is called on nothing.
  The outcome is exactly \<^verbatim>\<open>{"status": "success", "message": "Started new Claude process."}\<close>
  when the launch succeeds and \<^verbatim>\<open>{"status": "error", "message": "Failed to start Claude"}\<close>
  when it fails; neither message contains \<^verbatim>\<open>Terminated\<close>.
\<close>

theorem no_match_goes_straight_to_launch:
  assumes scan: "find_claude_processes (process_iter e) (iter_raises e) = Inr []"
  shows "handle_call_tool e ''restart_claude'' arguments
           = (Inr [TextContent (JDict
                [(''status'', JStr (if popen e = None then ''success'' else ''error'')),
                 (''message'', JStr (if popen e = None then ''Started new Claude process.''
                                     else ''Failed to start Claude''))])],
              [Process_iter, Popen [''open'', ''-a'', ''Claude'']])
         \<and> terminate_calls (snd (handle_call_tool e ''restart_claude'' arguments)) = []
         \<and> \<not> sublist ''Terminated'' (if popen e = None then ''Started new Claude process.''
                                     else ''Failed to start Claude'')"
proof (cases "popen e")
  case None
  then show ?thesis
    using scan
    by (simp add: handle_call_tool_def respond_def result_json_def start_claude_def
        sublist_code prefix_code)
next
  case (Some x)
  then show ?thesis
    using scan
    by (simp add: handle_call_tool_def respond_def result_json_def start_claude_def
        sublist_code prefix_code)
qed

theorem no_match_goes_straight_to_launch_witness:
  "handle_call_tool (mock_env [mock_process ''Finder'' 1, mock_process ''Claude'' 2] None)
      ''restart_claude'' JNull
   = (Inr [TextContent (JDict [(''status'', JStr ''success''),
                               (''message'', JStr ''Started new Claude process.'')])],
      [Process_iter, Popen [''open'', ''-a'', ''Claude'']])
   \<and> \<not> sublist ''Terminated'' ''Started new Claude process.''"
proof -
  let ?e = "mock_env [mock_process ''Finder'' 1, mock_process ''Claude'' 2] None"
  have scan: "find_claude_processes (process_iter ?e) (iter_raises ?e) = Inr []"
    by (simp add: run)
  have launch: "popen ?e = None" by (simp add: run)
  from no_match_goes_straight_to_launch [OF scan, of JNull] launch
  show ?thesis by simp
qed

section \<open>The status resource\<close>



text \<open>
  C8 says every identifier other than \<^verbatim>\<open>claude://status\<close> is refused. The canonical
  handler strips the scheme with \<^verbatim>\<open>uri.replace("claude://", "")\<close>, which removes every
  occurrence, so \<^verbatim>\<open>claude://claude://status\<close> is read as \<^verbatim>\<open>status\<close> and answered with a
  status object. The legacy handler, which compares the whole identifier, refuses it.
\<close>

theorem repeated_scheme_is_accepted:
  "handle_read_resource (mock_env [mock_process ''Claude Desktop'' 54321] None)
      ''claude://claude://status''
     = Inr (JDict [(''running'', JBool True), (''pid'', JInt 54321),
                   (''timestamp'', JStr ''2024-05-01T12:00:00.000250'')])
   \<and> handle_read_resource_legacy (mock_env [mock_process ''Claude Desktop'' 54321] None)
      ''claude://claude://status''
     = Inl (Exc ValueError ''Unknown resource: claude://claude://status'')"
  by (simp add: run)

section \<open>Failures while reading the status\<close>

lemma unknown_resource_prefixed: "sublist ''Unknown resource'' (''Unknown resource: '' @ s)"
  by (rule prefix_imp_sublist) simp

text \<open>
  C9 as stated (only \<^verbatim>\<open>ValueError\<close> escapes) does not hold: an exception whose own text
  already contains \<^verbatim>\<open>Unknown resource\<close> is re-raised by the bare \<^verbatim>\<open>raise\<close> of line 69 with
  the class it had. Here the scan raises such an exception of another class.
\<close>

theorem reraised_exception_keeps_its_class:
  "handle_read_resource (scan_fails_env (Exc OtherException ''Unknown resource table''))
      ''claude://status''
     = Inl (Exc OtherException ''Unknown resource table'')
   \<and> exc_class (Exc OtherException ''Unknown resource table'') \<noteq> ValueError"
  by (simp add: run)

text \<open>
  C9 amended. Canonical handler. Every failure inside the \<^verbatim>\<open>try\<close> is surfaced, with a text
  containing \<^verbatim>\<open>Unknown resource\<close>: when the body raises \<open>y\<close> the call raises \<open>y\<close> itself,
  unchanged, if the text of \<open>y\<close> already contains \<^verbatim>\<open>Unknown resource\<close>, and otherwise a
  \<^verbatim>\<open>ValueError\<close> whose text is \<^verbatim>\<open>Unknown resource: \<close> followed by the text of \<open>y\<close>. The
  failures of the body are spelled out: an identifier without the scheme, a path other
  than \<^verbatim>\<open>status\<close>, and an exception that leaves the scan. Conversely every exception that
  escapes the call is one of these, so its text contains \<^verbatim>\<open>Unknown resource\<close>.
\<close>

theorem read_resource_failures:
  "(read_resource_body e uri = Inl y \<longrightarrow>
       handle_read_resource e uri
         = Inl (if sublist ''Unknown resource'' (exc_str y) then y
                else Exc ValueError (''Unknown resource: '' @ exc_str y)))
   \<and> (\<not> prefix ''claude://'' uri \<longrightarrow>
       handle_read_resource e uri = Inl (Exc ValueError ''Unknown resource: Invalid URI scheme''))
   \<and> (prefix ''claude://'' uri \<and> str_replace ''claude://'' [] uri \<noteq> ''status'' \<longrightarrow>
       handle_read_resource e uri
         = Inl (Exc ValueError (''Unknown resource: '' @ str_replace ''claude://'' [] uri)))
   \<and> (prefix ''claude://'' uri \<and> str_replace ''claude://'' [] uri = ''status''
        \<and> find_claude_processes (process_iter e) (iter_raises e) = Inl y \<longrightarrow>
       handle_read_resource e uri
         = Inl (if sublist ''Unknown resource'' (exc_str y) then y
                else Exc ValueError (''Unknown resource: '' @ exc_str y)))
   \<and> (handle_read_resource e uri = Inl x \<longrightarrow>
       sublist ''Unknown resource'' (exc_str x)
       \<and> (\<exists>z. read_resource_body e uri = Inl z
              \<and> x = (if sublist ''Unknown resource'' (exc_str z) then z
                     else Exc ValueError (''Unknown resource: '' @ exc_str z))))"
proof -
  have wrapped: "handle_read_resource e uri
         = Inl (if sublist ''Unknown resource'' (exc_str z) then z
                else Exc ValueError (''Unknown resource: '' @ exc_str z))"
    if "read_resource_body e uri = Inl z" for z
    using that by (simp add: handle_read_resource_def)
  have c1: "read_resource_body e uri = Inl y \<longrightarrow>
       handle_read_resource e uri
         = Inl (if sublist ''Unknown resource'' (exc_str y) then y
                else Exc ValueError (''Unknown resource: '' @ exc_str y))"
    using wrapped by blast
  have c2: "\<not> prefix ''claude://'' uri \<longrightarrow>
       handle_read_resource e uri = Inl (Exc ValueError ''Unknown resource: Invalid URI scheme'')"
  proof
    assume "\<not> prefix ''claude://'' uri"
    then have "read_resource_body e uri
        = Inl (Exc ValueError ''Unknown resource: Invalid URI scheme'')"
      by (simp add: read_resource_body_def)
    from wrapped [OF this] show "handle_read_resource e uri
        = Inl (Exc ValueError ''Unknown resource: Invalid URI scheme'')"
      using unknown_resource_prefixed [of "''Invalid URI scheme''"] by simp
  qed
  have c3: "prefix ''claude://'' uri \<and> str_replace ''claude://'' [] uri \<noteq> ''status'' \<longrightarrow>
       handle_read_resource e uri
         = Inl (Exc ValueError (''Unknown resource: '' @ str_replace ''claude://'' [] uri))"
  proof
    assume "prefix ''claude://'' uri \<and> str_replace ''claude://'' [] uri \<noteq> ''status''"
    then have "read_resource_body e uri
        = Inl (Exc ValueError (''Unknown resource: '' @ str_replace ''claude://'' [] uri))"
      by (simp add: read_resource_body_def Let_def)
    from wrapped [OF this] show "handle_read_resource e uri
        = Inl (Exc ValueError (''Unknown resource: '' @ str_replace ''claude://'' [] uri))"
      using unknown_resource_prefixed [of "str_replace ''claude://'' [] uri"] by simp
  qed
  have c4: "prefix ''claude://'' uri \<and> str_replace ''claude://'' [] uri = ''status''
        \<and> find_claude_processes (process_iter e) (iter_raises e) = Inl y \<longrightarrow>
       handle_read_resource e uri
         = Inl (if sublist ''Unknown resource'' (exc_str y) then y
                else Exc ValueError (''Unknown resource: '' @ exc_str y))"
  proof
    assume "prefix ''claude://'' uri \<and> str_replace ''claude://'' [] uri = ''status''
        \<and> find_claude_processes (process_iter e) (iter_raises e) = Inl y"
    then have "read_resource_body e uri = Inl y"
      by (simp add: read_resource_body_def Let_def)
    from wrapped [OF this] show "handle_read_resource e uri
         = Inl (if sublist ''Unknown resource'' (exc_str y) then y
                else Exc ValueError (''Unknown resource: '' @ exc_str y))" .
  qed
  have c5: "handle_read_resource e uri = Inl x \<longrightarrow>
       sublist ''Unknown resource'' (exc_str x)
       \<and> (\<exists>z. read_resource_body e uri = Inl z
              \<and> x = (if sublist ''Unknown resource'' (exc_str z) then z
                     else Exc ValueError (''Unknown resource: '' @ exc_str z)))"
  proof
    assume escapes: "handle_read_resource e uri = Inl x"
    then obtain z where body: "read_resource_body e uri = Inl z"
      by (cases "read_resource_body e uri") (simp_all add: handle_read_resource_def)
    have x: "x = (if sublist ''Unknown resource'' (exc_str z) then z
                     else Exc ValueError (''Unknown resource: '' @ exc_str z))"
      using escapes wrapped [OF body] by simp
    have "sublist ''Unknown resource'' (exc_str x)"
      using x unknown_resource_prefixed [of "exc_str z"] by (simp split: if_splits)
    then show "sublist ''Unknown resource'' (exc_str x)
       \<and> (\<exists>z. read_resource_body e uri = Inl z
              \<and> x = (if sublist ''Unknown resource'' (exc_str z) then z
                     else Exc ValueError (''Unknown resource: '' @ exc_str z)))"
      using body x by blast
  qed
  show ?thesis
    by (intro conjI) (rule c1, rule c2, rule c3, rule c4, rule c5)
qed

theorem read_resource_failures_witness:
  "handle_read_resource (scan_fails_env (Exc AccessDenied ''process table unreadable''))
      ''claude://status''
     = Inl (Exc ValueError ''Unknown resource: process table unreadable'')
   \<and> handle_read_resource (scan_fails_env (Exc AccessDenied ''process table unreadable''))
      ''claude://invalid''
     = Inl (Exc ValueError ''Unknown resource: invalid'')
   \<and> handle_read_resource (scan_fails_env (Exc AccessDenied ''process table unreadable''))
      ''http://status''
     = Inl (Exc ValueError ''Unknown resource: Invalid URI scheme'')"
proof -
  let ?y = "Exc AccessDenied ''process table unreadable''"
  let ?e = "scan_fails_env ?y"
  have scan: "prefix ''claude://'' ''claude://status''
      \<and> str_replace ''claude://'' [] ''claude://status'' = ''status''
      \<and> find_claude_processes (process_iter ?e) (iter_raises ?e) = Inl ?y"
    by (simp add: run)
  have plain: "\<not> sublist ''Unknown resource'' (exc_str ?y)"
    by (simp add: run)
  have other: "prefix ''claude://'' ''claude://invalid''
      \<and> str_replace ''claude://'' [] ''claude://invalid'' \<noteq> ''status''"
    by (simp add: run)
  have path: "str_replace ''claude://'' [] ''claude://invalid'' = ''invalid''"
    by (simp add: run)
  have scheme: "\<not> prefix ''claude://'' ''http://status''"
    by (simp add: run)
  from read_resource_failures [of ?e "''claude://status''" ?y] scan plain
  have a: "handle_read_resource ?e ''claude://status''
      = Inl (Exc ValueError ''Unknown resource: process table unreadable'')"
    by simp
  from read_resource_failures [of ?e "''claude://invalid''"] other path
  have b: "handle_read_resource ?e ''claude://invalid''
      = Inl (Exc ValueError ''Unknown resource: invalid'')"
    by simp
  from read_resource_failures [of ?e "''http://status''"] scheme
  have c: "handle_read_resource ?e ''http://status''
      = Inl (Exc ValueError ''Unknown resource: Invalid URI scheme'')"
    by simp
  show ?thesis using a b c by simp
qed

section \<open>The legacy restart\<close>








end
